theory Spec2Isabelle
  imports Main "HOL-Library.Word"
begin

section \<open>Data model of \<^verbatim>\<open>main.go\<close>\<close>

text \<open>
  Go's \<^verbatim>\<open>int\<close> is a 64-bit machine integer on the platforms the server is built for;
  a Go \<^verbatim>\<open>string\<close> is a sequence of bytes, here a \<^typ>\<open>char list\<close>.
  \<^verbatim>\<open>time.Duration\<close> counts nanoseconds.
\<close>

type_synonym go_int = "64 word"
type_synonym Duration = int

definition Minute :: Duration where
  "Minute = 60 * 1000000000"

text \<open>The anonymous element struct of \<^verbatim>\<open>VideoResponse.Medias\<close>.\<close>

record Media =
  FormatID :: string
  Quality :: string
  Width :: go_int
  Height :: go_int
  Ext :: string

text \<open>
  \<^verbatim>\<open>VideoResponse\<close>. A nil slice and an empty slice are both the empty list: the code only
  appends to \<^verbatim>\<open>Medias\<close>, ranges over it and indexes it.
\<close>

record VideoResponse =
  URL :: string
  Source :: string
  ID :: string
  Author :: string
  Title :: string
  Thumbnail :: string
  Medias :: "Media list"
  Error :: bool

text \<open>The anonymous element struct of \<^verbatim>\<open>YTDLPOutput.Formats\<close>; fields carry the prefix \<open>f_\<close>.\<close>

record Format =
  f_FormatID :: string
  f_Ext :: string
  f_Format :: string
  f_Width :: go_int
  f_Height :: go_int
  f_Acodec :: string
  f_Vcodec :: string
  f_FPS :: go_int
  f_Filesize :: go_int

text \<open>\<^verbatim>\<open>YTDLPOutput\<close>; fields carry the prefix \<open>yt_\<close>.\<close>

record YTDLPOutput =
  yt_ID :: string
  yt_Title :: string
  yt_Uploader :: string
  yt_Thumbnail :: string
  yt_WebpageURL :: string
  yt_Formats :: "Format list"

text \<open>The fields of \<^verbatim>\<open>url.URL\<close> that the code reads, and the path.\<close>

record url =
  Scheme :: string
  Host :: string
  Path :: string

text \<open>
  The error values the code can hold in an \<^verbatim>\<open>err\<close> variable, grouped by the library that
  produces them: \<^verbatim>\<open>os/exec\<close> (the process could not be started, or it exited non-zero),
  \<^verbatim>\<open>encoding/json\<close>, the Redis client (\<^verbatim>\<open>redis.Nil\<close> for a missing key, anything else),
  \<^verbatim>\<open>net/url\<close> and the form parser of \<^verbatim>\<open>net/http\<close>.
\<close>

datatype exec_error = exec_Error | exec_ExitError

datatype json_error = json_SyntaxError | json_UnmarshalTypeError

datatype redis_error = redis_Nil | redis_Error

datatype error =
    url_Error
  | form_Error
  | from_redis redis_error
  | from_exec exec_error
  | from_json json_error

section \<open>\<^verbatim>\<open>isValidFormatID\<close>\<close>

text \<open>
  \<^verbatim>\<open>var formatIDRegex = regexp.MustCompile(`^[a-zA-Z0-9+_-]+$`)\<close>.
  The bracket expression is a list of ranges and single characters; the trailing \<^verbatim>\<open>-\<close> is a
  literal. Without flags \<^verbatim>\<open>^\<close> and \<^verbatim>\<open>$\<close> match only at the beginning and the end of the text,
  so \<^verbatim>\<open>MatchString\<close> holds exactly when the whole text is one or more characters of the class.
  A byte above 127 is either part of a non-ASCII rune or invalid UTF-8 (read as U+FFFD);
  neither is in the class, and no range below contains such a byte.
\<close>

datatype class_item = CharRange char char | Single char

fun in_item :: "char \<Rightarrow> class_item \<Rightarrow> bool" where
  "in_item c (CharRange lo hi) = ((of_char lo :: nat) \<le> of_char c \<and> (of_char c :: nat) \<le> of_char hi)"
| "in_item c (Single x) = (c = x)"

definition in_class :: "class_item list \<Rightarrow> char \<Rightarrow> bool" where
  "in_class cls c = list_ex (in_item c) cls"

fun match_plus :: "class_item list \<Rightarrow> string \<Rightarrow> bool" where
  "match_plus cls [] = False"
| "match_plus cls [c] = in_class cls c"
| "match_plus cls (c # d # cs) = (in_class cls c \<and> match_plus cls (d # cs))"

definition formatIDRegex :: "class_item list" where
  "formatIDRegex =
     [CharRange CHR ''a'' CHR ''z'', CharRange CHR ''A'' CHR ''Z'', CharRange CHR ''0'' CHR ''9'',
      Single CHR ''+'', Single CHR ''_'', Single CHR ''-'']"

definition MatchString :: "class_item list \<Rightarrow> string \<Rightarrow> bool" where
  "MatchString re s = match_plus re s"

definition isValidFormatID :: "string \<Rightarrow> bool" where
  "isValidFormatID ident = (ident \<noteq> '''' \<and> MatchString formatIDRegex ident)"

text \<open>
  The pattern as the specification writes it, \<^verbatim>\<open>^[A-Za-z0-9+_-]+$\<close>: a non-empty string over
  the 65 listed characters.
\<close>

definition format_id_alphabet :: "char set" where
  "format_id_alphabet =
     set ''ABCDEFGHIJKLMNOPQRSTUVWXYZabcdefghijklmnopqrstuvwxyz0123456789+_-''"

definition matches_format_pattern :: "string \<Rightarrow> bool" where
  "matches_format_pattern s = (s \<noteq> [] \<and> set s \<subseteq> format_id_alphabet)"

section \<open>The world outside the process\<close>

text \<open>
  Library and external behaviour that \<^verbatim>\<open>main.go\<close> calls but does not define is a parameter:
  \<^item> \<open>ParseRequestURI\<close>: \<^verbatim>\<open>url.ParseRequestURI\<close>;
  \<^item> \<open>decode_VideoResponse\<close>, \<open>decode_YTDLPOutput\<close>: what \<^verbatim>\<open>json.Unmarshal\<close> makes of a
    non-empty input for the two target types;
  \<^item> \<open>Marshal\<close>: \<^verbatim>\<open>json.Marshal\<close> of a \<^verbatim>\<open>*VideoResponse\<close> (it cannot fail for this type, and
    the code drops its error);
  \<^item> \<open>Output\<close>: \<^verbatim>\<open>cmd.Output()\<close> for an argument vector, the captured standard output and the
    error;
  \<^item> \<open>Run\<close>: \<^verbatim>\<open>cmd.Run()\<close> with \<^verbatim>\<open>cmd.Stdout = w\<close>, the chunks written to \<^verbatim>\<open>w\<close> and the error;
  \<^item> \<open>ValidateURL\<close>: \<^verbatim>\<open>utils.ValidateURL\<close>, a package of the repository whose source is not
    part of \<^verbatim>\<open>main.go\<close>.
\<close>

record env =
  ParseRequestURI :: "string \<Rightarrow> error + url"
  decode_VideoResponse :: "string \<Rightarrow> json_error + VideoResponse"
  decode_YTDLPOutput :: "string \<Rightarrow> json_error + YTDLPOutput"
  Marshal :: "VideoResponse \<Rightarrow> string"
  Output :: "string list \<Rightarrow> string \<times> exec_error option"
  Run :: "string list \<Rightarrow> string list \<times> exec_error option"
  ValidateURL :: "string \<Rightarrow> bool"

text \<open>
  \<^verbatim>\<open>json.Unmarshal\<close> checks the syntax of its input first, and the empty input is not a JSON
  document (\<^verbatim>\<open>unexpected end of JSON input\<close>).
\<close>

definition Unmarshal_VideoResponse :: "env \<Rightarrow> string \<Rightarrow> json_error + VideoResponse" where
  "Unmarshal_VideoResponse e data =
     (if data = [] then Inl json_SyntaxError else decode_VideoResponse e data)"

definition Unmarshal_YTDLPOutput :: "env \<Rightarrow> string \<Rightarrow> json_error + YTDLPOutput" where
  "Unmarshal_YTDLPOutput e data =
     (if data = [] then Inl json_SyntaxError else decode_YTDLPOutput e data)"

text \<open>
  The Redis server behind the global \<^verbatim>\<open>rdb\<close>: the stored values with the expiry they were
  written with, and whether the server answers. Every call that leaves the process is
  appended to a trace.
\<close>

record redis =
  store :: "string \<rightharpoonup> string \<times> Duration"
  up :: bool

datatype event =
    RedisGet string
  | RedisSet string string Duration
  | Exec "string list"

record world =
  rdb :: redis
  trace :: "event list"

definition redis_lookup :: "redis \<Rightarrow> string \<Rightarrow> redis_error + string" where
  "redis_lookup r key =
     (if \<not> up r then Inl redis_Error
      else case store r key of None \<Rightarrow> Inl redis_Nil | Some (v, ttl) \<Rightarrow> Inr v)"

definition rdb_Get :: "world \<Rightarrow> string \<Rightarrow> (redis_error + string) \<times> world" where
  "rdb_Get w key = (redis_lookup (rdb w) key, w\<lparr>trace := trace w @ [RedisGet key]\<rparr>)"

definition redis_write :: "redis \<Rightarrow> string \<Rightarrow> string \<Rightarrow> Duration \<Rightarrow> redis" where
  "redis_write r key v expiration =
     (if up r then r\<lparr>store := (store r)(key \<mapsto> (v, expiration))\<rparr> else r)"

definition rdb_Set ::
  "world \<Rightarrow> string \<Rightarrow> string \<Rightarrow> Duration \<Rightarrow> redis_error option \<times> world" where
  "rdb_Set w key v expiration =
     (if up (rdb w) then None else Some redis_Error,
      w\<lparr>rdb := redis_write (rdb w) key v expiration,
        trace := trace w @ [RedisSet key v expiration]\<rparr>)"

definition exec_Output ::
  "env \<Rightarrow> world \<Rightarrow> string list \<Rightarrow> (string \<times> exec_error option) \<times> world" where
  "exec_Output e w argv = (Output e argv, w\<lparr>trace := trace w @ [Exec argv]\<rparr>)"

definition exec_Run ::
  "env \<Rightarrow> world \<Rightarrow> string list \<Rightarrow> (string list \<times> exec_error option) \<times> world" where
  "exec_Run e w argv = (Run e argv, w\<lparr>trace := trace w @ [Exec argv]\<rparr>)"

section \<open>\<^verbatim>\<open>fetchVideoMetaData\<close>\<close>

text \<open>The struct literal appended in the loop over \<^verbatim>\<open>ytdlpData.Formats\<close>.\<close>

definition media_of :: "Format \<Rightarrow> Media" where
  "media_of f =
     \<lparr>FormatID = f_FormatID f, Quality = f_Format f, Width = f_Width f,
      Height = f_Height f, Ext = f_Ext f\<rparr>"

text \<open>
  \<^verbatim>\<open>for _, f := range ytdlpData.Formats\<close>: the first argument is \<^verbatim>\<open>videoResp.Medias\<close> as built
  so far, each \<^verbatim>\<open>continue\<close> goes on with the next entry.
\<close>

fun formats_loop :: "Media list \<Rightarrow> Format list \<Rightarrow> Media list" where
  "formats_loop medias [] = medias"
| "formats_loop medias (f # fs) =
     (if f_FormatID f = '''' then formats_loop medias fs
      else if f_Vcodec f = ''none'' \<and> f_Acodec f = ''none'' then formats_loop medias fs
      else formats_loop (medias @ [media_of f]) fs)"

text \<open>
  \<^verbatim>\<open>videoResp := &VideoResponse{...}\<close> followed by the loop. \<^verbatim>\<open>Source\<close> and \<^verbatim>\<open>Error\<close> are not
  set and keep their zero values.
\<close>

definition build_response :: "YTDLPOutput \<Rightarrow> VideoResponse" where
  "build_response ytdlpData =
     \<lparr>URL = yt_WebpageURL ytdlpData, Source = '''', ID = yt_ID ytdlpData,
      Author = yt_Uploader ytdlpData, Title = yt_Title ytdlpData,
      Thumbnail = yt_Thumbnail ytdlpData,
      Medias = formats_loop [] (yt_Formats ytdlpData), Error = False\<rparr>"

definition cacheKey_of :: "string \<Rightarrow> string" where
  "cacheKey_of videoURL = ''video_meta:'' @ videoURL"

text \<open>
  The result is Go's pair \<^verbatim>\<open>(*VideoResponse, error)\<close>: \<open>None\<close> is \<^verbatim>\<open>nil\<close> in either
  component. \<open>fetch_fresh\<close> is the part of the function after the cache lookup, from
  \<^verbatim>\<open>exec.Command("yt-dlp", "-j", videoURL)\<close> to the end; the error of \<^verbatim>\<open>json.Marshal\<close> and the
  result of \<^verbatim>\<open>rdb.Set\<close> are dropped, as in the code.
\<close>

definition fetch_fresh ::
  "env \<Rightarrow> world \<Rightarrow> string \<Rightarrow> (VideoResponse option \<times> error option) \<times> world" where
  "fetch_fresh e w videoURL =
     (let ((output, err), w1) = exec_Output e w [''yt-dlp'', ''-j'', videoURL] in
      case err of
        Some err \<Rightarrow> ((None, Some (from_exec err)), w1)
      | None \<Rightarrow>
          (case Unmarshal_YTDLPOutput e output of
             Inl err \<Rightarrow> ((None, Some (from_json err)), w1)
           | Inr ytdlpData \<Rightarrow>
               let videoResp = build_response ytdlpData;
                   cacheData = Marshal e videoResp;
                   (_, w2) = rdb_Set w1 (cacheKey_of videoURL) cacheData (5 * Minute)
               in ((Some videoResp, None), w2)))"

text \<open>
  In the first branch \<^verbatim>\<open>err != nil\<close> and the code returns \<^verbatim>\<open>nil, err\<close>. In the second the parse
  succeeded, so \<^verbatim>\<open>err\<close> is \<^verbatim>\<open>nil\<close>, and the same \<^verbatim>\<open>return nil, err\<close> returns \<^verbatim>\<open>(nil, nil)\<close>.
\<close>

definition fetchVideoMetaData ::
  "env \<Rightarrow> world \<Rightarrow> string \<Rightarrow> (VideoResponse option \<times> error option) \<times> world" where
  "fetchVideoMetaData e w videoURL =
     (case ParseRequestURI e videoURL of
        Inl err \<Rightarrow> ((None, Some err), w)
      | Inr parsedURL \<Rightarrow>
          if Scheme parsedURL = '''' \<or> Host parsedURL = '''' then ((None, None), w)
          else
            let (r, w1) = rdb_Get w (cacheKey_of videoURL) in
            (case r of
               Inr cacheData \<Rightarrow>
                 (case Unmarshal_VideoResponse e cacheData of
                    Inr v \<Rightarrow> ((Some v, None), w1)
                  | Inl _ \<Rightarrow> fetch_fresh e w1 videoURL)
             | Inl _ \<Rightarrow> fetch_fresh e w1 videoURL))"

section \<open>The HTTP handlers\<close>

text \<open>
  A request is what the handlers read from it. A handler's effect on its
  \<^verbatim>\<open>http.ResponseWriter\<close> is the list of calls it makes on it, in order; the three format
  strings of the \<^verbatim>\<open>/submit\<close> page are named, and an \<^verbatim>\<open>fmt.Fprintf\<close> is recorded with its
  arguments. A handler that panics makes no call: both panics of \<^verbatim>\<open>/submit\<close> happen before
  its first write.
\<close>

record request =
  ParseForm :: "error option"
  FormValue :: "string \<Rightarrow> string"
  Query :: "string \<Rightarrow> string"

datatype template = tpl_details | tpl_option | tpl_download_link

datatype rw_call =
    http_Error string nat
  | Header_Set string string
  | Fprintf template "string list"
  | Write string

datatype panic = index_out_of_range nat nat | nil_pointer_dereference

datatype outcome = Panic panic | Done "rw_call list"

definition StatusBadRequest :: nat where
  "StatusBadRequest = 400"

definition StatusInternalServerError :: nat where
  "StatusInternalServerError = 500"

subsection \<open>The \<^verbatim>\<open>strings\<close> and \<^verbatim>\<open>fmt\<close> functions of the option labels\<close>

definition HasPrefix :: "string \<Rightarrow> string \<Rightarrow> bool" where
  "HasPrefix s p = (take (length p) s = p)"

definition HasSuffix :: "string \<Rightarrow> string \<Rightarrow> bool" where
  "HasSuffix s suffix = (length suffix \<le> length s \<and> drop (length s - length suffix) s = suffix)"

fun Contains :: "string \<Rightarrow> string \<Rightarrow> bool" where
  "Contains [] substr = (substr = [])"
| "Contains (c # s) substr = (HasPrefix (c # s) substr \<or> Contains s substr)"

text \<open>\<^verbatim>\<open>strings.Split(label, " ")\<close>: the separator is the single space.\<close>

fun Split_space :: "string \<Rightarrow> string list" where
  "Split_space [] = [[]]"
| "Split_space (c # s) =
     (if c = CHR '' '' then [] # Split_space s
      else (c # hd (Split_space s)) # tl (Split_space s))"

text \<open>\<^verbatim>\<open>strings.ReplaceAll(videoData.Title, "/", "-")\<close>: both strings are one byte long.\<close>

definition ReplaceAll_slash_dash :: "string \<Rightarrow> string" where
  "ReplaceAll_slash_dash s = map (\<lambda>c. if c = CHR ''/'' then CHR ''-'' else c) s"

fun decimal :: "nat \<Rightarrow> string" where
  "decimal n =
     (if n < 10 then [char_of (48 + n)] else decimal (n div 10) @ [char_of (48 + n mod 10)])"

text \<open>The verb \<^verbatim>\<open>%d\<close> on a Go \<^verbatim>\<open>int\<close>, which is signed.\<close>

definition Sprintf_d :: "go_int \<Rightarrow> string" where
  "Sprintf_d i = (if sint i < 0 then ''-'' @ decimal (nat (- sint i)) else decimal (nat (sint i)))"

text \<open>The body of the loop over \<^verbatim>\<open>videoData.Medias\<close>, up to the label that is printed.\<close>

definition option_label :: "Media \<Rightarrow> string" where
  "option_label media =
     (let label = Quality media in
      if Contains label ''video only'' \<or> Contains label ''audio only'' then
        let parts = Split_space label;
            res = (case find (\<lambda>p. HasSuffix p ''p'' \<or> Contains p ''x'') parts of
                     None \<Rightarrow> '''' | Some p \<Rightarrow> p);
            res = (if res = '''' then Sprintf_d (Height media) @ ''p'' else res)
        in if Contains (Quality media) ''audio only'' then ''Audio only'' else res
      else label)"

subsection \<open>\<^verbatim>\<open>/submit\<close>\<close>

text \<open>
  \<^verbatim>\<open>videoData.Title\<close> dereferences the pointer that \<^verbatim>\<open>fetchVideoMetaData\<close> returned, and
  \<^verbatim>\<open>videoData.Medias[0]\<close> is evaluated as an argument of the first \<^verbatim>\<open>Fprintf\<close>, before
  anything is written. The text of the error that \<^verbatim>\<open>%v\<close> prints after the message of the
  third \<^verbatim>\<open>http.Error\<close> is left out.
\<close>

definition submit :: "env \<Rightarrow> world \<Rightarrow> request \<Rightarrow> outcome \<times> world" where
  "submit e w r =
     (if ParseForm r \<noteq> None then (Done [http_Error ''Error Parsing Form'' StatusBadRequest], w)
      else
        let videoURL = FormValue r ''videoURL'' in
        if videoURL = '''' \<or> \<not> ValidateURL e videoURL
        then (Done [http_Error ''Invalid or unsupported video URL'' StatusBadRequest], w)
        else
          let ((videoData, err), w1) = fetchVideoMetaData e w videoURL in
          if err \<noteq> None
          then (Done [http_Error ''Error fetching video meta data: '' StatusInternalServerError], w1)
          else
            (case videoData of
               None \<Rightarrow> (Panic nil_pointer_dereference, w1)
             | Some v \<Rightarrow>
                 let sanitizedTitle = ReplaceAll_slash_dash (Title v) in
                 (case Medias v of
                    [] \<Rightarrow> (Panic (index_out_of_range 0 0), w1)
                  | m0 # _ \<Rightarrow>
                      (Done
                        ([Fprintf tpl_details [FormatID m0, URL v, Thumbnail v, Title v, Author v]]
                         @ map (\<lambda>media. Fprintf tpl_option [FormatID media, option_label media])
                             (Medias v)
                         @ [Fprintf tpl_download_link [sanitizedTitle]]), w1))))"

subsection \<open>\<^verbatim>\<open>/download\<close>\<close>

definition download :: "env \<Rightarrow> world \<Rightarrow> request \<Rightarrow> rw_call list \<times> world" where
  \<open>download e w r =
     (let pageURL = Query r ''url'' in
      if pageURL = '''' then ([http_Error ''Missing video page URL'' StatusBadRequest], w)
      else
        let formatID = Query r ''format'' in
        if \<not> isValidFormatID formatID then ([http_Error ''Invalid format'' StatusBadRequest], w)
        else
          let fileName = Query r ''filename'';
              fileName = (if fileName = '''' then ''video.mp4'' else fileName);
              ((chunks, err), w1) =
                exec_Run e w
                  [''yt-dlp'', ''-f'', formatID, ''--merge-output-format'', ''mp4'',
                   ''--prefer-ffmpeg'', ''--no-mtime'', ''-o'', ''-'', pageURL]
          in ([Header_Set ''Content-Disposition'' (''attachment; filename="'' @ fileName @ ''"''),
               Header_Set ''Content-Type'' ''video/mp4'']
              @ map Write chunks
              @ (if err \<noteq> None
                 then [http_Error ''Failed to download video'' StatusInternalServerError]
                 else []), w1))\<close>

section \<open>The error kinds of the specification\<close>

text \<open>
  The code has no error kinds of its own: it hands on the error value of the library call
  that failed. The kinds of the specification are read off the producing call: an error of
  \<^verbatim>\<open>url.ParseRequestURI\<close> is an invalid URL, an error of \<^verbatim>\<open>cmd.Output()\<close> is a failed
  extraction, and an error of \<^verbatim>\<open>json.Unmarshal\<close> on the tool's output is malformed metadata.
  Errors of Redis and of the form parser never leave \<^verbatim>\<open>fetchVideoMetaData\<close>.
\<close>

datatype error_kind = InvalidURL | ExtractionFailed | MalformedMetadata

fun kind_of :: "error \<Rightarrow> error_kind option" where
  "kind_of url_Error = Some InvalidURL"
| "kind_of (from_exec _) = Some ExtractionFailed"
| "kind_of (from_json _) = Some MalformedMetadata"
| "kind_of form_Error = None"
| "kind_of (from_redis _) = None"

text \<open>
  The cache entry that a lookup for \<open>videoURL\<close> can use, if there is one: the key is present,
  the server answers, and the payload deserializes.
\<close>

definition cached :: "env \<Rightarrow> world \<Rightarrow> string \<Rightarrow> VideoResponse option" where
  "cached e w videoURL =
     (case redis_lookup (rdb w) (cacheKey_of videoURL) of
        Inl _ \<Rightarrow> None
      | Inr cacheData \<Rightarrow>
          (case Unmarshal_VideoResponse e cacheData of Inl _ \<Rightarrow> None | Inr v \<Rightarrow> Some v))"

section \<open>Test doubles\<close>

text \<open>
  A fake environment in the sense of the specification's design notes, around its scenario:
  the page \<^verbatim>\<open>https://example.com/watch?v=abc\<close>, for which the tool reports one usable format
  and one entry without a format id.
\<close>

definition demo_url :: string where
  "demo_url = ''https://example.com/watch?v=abc''"

definition demo_output :: string where
  \<open>demo_output =
     ''{"id":"abc","title":"Demo","uploader":"Me","webpage_url":"https://example.com/watch?v=abc","thumbnail":"http://x/img.jpg","formats":[{"format_id":"18","ext":"mp4","format":"360p","width":640,"height":360,"acodec":"aac","vcodec":"h264"},{"format_id":"","ext":"mp4","format":"bad"}]}''\<close>

definition demo_ytdlp :: YTDLPOutput where
  "demo_ytdlp =
     \<lparr>yt_ID = ''abc'', yt_Title = ''Demo'', yt_Uploader = ''Me'',
      yt_Thumbnail = ''http://x/img.jpg'', yt_WebpageURL = ''https://example.com/watch?v=abc'',
      yt_Formats =
        [\<lparr>f_FormatID = ''18'', f_Ext = ''mp4'', f_Format = ''360p'', f_Width = 640,
          f_Height = 360, f_Acodec = ''aac'', f_Vcodec = ''h264'', f_FPS = 0, f_Filesize = 0\<rparr>,
         \<lparr>f_FormatID = '''', f_Ext = ''mp4'', f_Format = ''bad'', f_Width = 0,
          f_Height = 0, f_Acodec = '''', f_Vcodec = '''', f_FPS = 0, f_Filesize = 0\<rparr>]\<rparr>"

definition demo_response :: VideoResponse where
  "demo_response =
     \<lparr>URL = ''https://example.com/watch?v=abc'', Source = '''', ID = ''abc'', Author = ''Me'',
      Title = ''Demo'', Thumbnail = ''http://x/img.jpg'',
      Medias = [\<lparr>FormatID = ''18'', Quality = ''360p'', Width = 640, Height = 360, Ext = ''mp4''\<rparr>],
      Error = False\<rparr>"

definition demo_payload :: string where
  \<open>demo_payload =
     ''{"url":"https://example.com/watch?v=abc","source":"","id":"abc","author":"Me","title":"Demo","thumbnail":"http://x/img.jpg","medias":[{"format_id":"18","quality":"360p","width":640,"height":360,"ext":"mp4"}],"error":false}''\<close>

text \<open>A tool output whose only entry is a storyboard, with neither an audio nor a video stream.\<close>

definition storyboard_output :: string where
  \<open>storyboard_output =
     ''{"id":"abc","title":"Demo","uploader":"Me","webpage_url":"https://example.com/watch?v=abc","thumbnail":"http://x/img.jpg","formats":[{"format_id":"sb0","ext":"mhtml","format":"sb0 - 48x27 (storyboard)","width":48,"height":27,"acodec":"none","vcodec":"none"}]}''\<close>

definition storyboard_ytdlp :: YTDLPOutput where
  "storyboard_ytdlp =
     \<lparr>yt_ID = ''abc'', yt_Title = ''Demo'', yt_Uploader = ''Me'',
      yt_Thumbnail = ''http://x/img.jpg'', yt_WebpageURL = ''https://example.com/watch?v=abc'',
      yt_Formats =
        [\<lparr>f_FormatID = ''sb0'', f_Ext = ''mhtml'', f_Format = ''sb0 - 48x27 (storyboard)'',
          f_Width = 48, f_Height = 27, f_Acodec = ''none'', f_Vcodec = ''none'', f_FPS = 0,
          f_Filesize = 0\<rparr>]\<rparr>"

text \<open>A payload under the page's cache key that did not come from the filter above.\<close>

definition foreign_payload :: string where
  \<open>foreign_payload = ''{"url":"https://example.com/watch?v=abc","medias":[{"format_id":""}]}''\<close>

definition foreign_response :: VideoResponse where
  "foreign_response =
     \<lparr>URL = ''https://example.com/watch?v=abc'', Source = '''', ID = '''', Author = '''',
      Title = '''', Thumbnail = '''',
      Medias = [\<lparr>FormatID = '''', Quality = '''', Width = 0, Height = 0, Ext = ''''\<rparr>],
      Error = False\<rparr>"

text \<open>
  \<^verbatim>\<open>url.ParseRequestURI\<close> takes an absolute URI or an absolute path: for \<^verbatim>\<open>/watch\<close> it returns a
  URL with only the path set, and no error.
\<close>

definition demo_env :: env where
  "demo_env =
     \<lparr>ParseRequestURI =
        (\<lambda>s. if s = demo_url
             then Inr \<lparr>Scheme = ''https'', Host = ''example.com'', Path = ''/watch''\<rparr>
             else if s = ''/watch'' then Inr \<lparr>Scheme = '''', Host = '''', Path = ''/watch''\<rparr>
             else Inl url_Error),
      decode_VideoResponse =
        (\<lambda>s. if s = demo_payload then Inr demo_response
             else if s = foreign_payload then Inr foreign_response
             else Inl json_SyntaxError),
      decode_YTDLPOutput =
        (\<lambda>s. if s = demo_output then Inr demo_ytdlp
             else if s = storyboard_output then Inr storyboard_ytdlp
             else Inl json_SyntaxError),
      Marshal = (\<lambda>v. if v = demo_response then demo_payload else ''null''),
      Output =
        (\<lambda>argv. if argv = [''yt-dlp'', ''-j'', demo_url] then (demo_output, None)
                else ('''', Some exec_ExitError)),
      Run = (\<lambda>argv. ([''chunk 1'', ''chunk 2'', ''chunk 3''], None)),
      ValidateURL = (\<lambda>s. s = demo_url)\<rparr>"

text \<open>The tool exits with status 0 and prints nothing.\<close>

definition silent_env :: env where
  "silent_env = demo_env\<lparr>Output := \<lambda>argv. ('''', None)\<rparr>"

text \<open>The tool exits non-zero.\<close>

definition failing_env :: env where
  "failing_env = demo_env\<lparr>Output := \<lambda>argv. ('''', Some exec_ExitError)\<rparr>"

text \<open>The tool reports only the storyboard.\<close>

definition storyboard_env :: env where
  "storyboard_env = demo_env\<lparr>Output := \<lambda>argv. (storyboard_output, None)\<rparr>"

definition empty_world :: world where
  "empty_world = \<lparr>rdb = \<lparr>store = Map.empty, up = True\<rparr>, trace = []\<rparr>"

definition warm_world :: world where
  "warm_world =
     \<lparr>rdb = \<lparr>store = [cacheKey_of demo_url \<mapsto> (demo_payload, 5 * Minute)], up = True\<rparr>,
      trace = []\<rparr>"


definition redis_down_world :: world where
  "redis_down_world = \<lparr>rdb = \<lparr>store = Map.empty, up = False\<rparr>, trace = []\<rparr>"

definition submit_request :: request where
  "submit_request =
     \<lparr>ParseForm = None, FormValue = (\<lambda>k. if k = ''videoURL'' then demo_url else ''''),
      Query = (\<lambda>k. '''')\<rparr>"

definition evil_request :: request where
  "evil_request =
     \<lparr>ParseForm = None, FormValue = (\<lambda>k. ''''),
      Query = (\<lambda>k. if k = ''url'' then demo_url else if k = ''format'' then ''18; evil'' else '''')\<rparr>"

definition evil_request_without_url :: request where
  "evil_request_without_url =
     \<lparr>ParseForm = None, FormValue = (\<lambda>k. ''''),
      Query = (\<lambda>k. if k = ''format'' then ''18; evil'' else '''')\<rparr>"

definition good_request :: request where
  "good_request =
     \<lparr>ParseForm = None, FormValue = (\<lambda>k. ''''),
      Query = (\<lambda>k. if k = ''url'' then demo_url else if k = ''format'' then ''18'' else '''')\<rparr>"

section \<open>Shared lemmas\<close>

lemma in_class_alphabet: "in_class formatIDRegex c = (c \<in> format_id_alphabet)"
  by (cases c) (simp add: in_class_def formatIDRegex_def format_id_alphabet_def)

lemma match_plus_iff: "match_plus cls s = (s \<noteq> [] \<and> (\<forall>c\<in>set s. in_class cls c))"
  by (induction cls s rule: match_plus.induct) auto

lemma isValidFormatID_eq: "isValidFormatID s = (s \<noteq> [] \<and> set s \<subseteq> format_id_alphabet)"
  by (auto simp: isValidFormatID_def MatchString_def match_plus_iff in_class_alphabet)

text \<open>The loop appends, to what it was given, the converted entries that pass both tests.\<close>

lemma formats_loop_acc:
  "formats_loop medias fs =
     medias @ map media_of
       (filter (\<lambda>f. f_FormatID f \<noteq> '''' \<and> \<not> (f_Vcodec f = ''none'' \<and> f_Acodec f = ''none'')) fs)"
  by (induction fs arbitrary: medias) auto

text \<open>
  Past the URL check the function does one cache lookup, and then either returns the
  usable entry or runs the rest of its body.
\<close>

lemma fetch_valid_url:
  assumes "ParseRequestURI e u = Inr p" "Scheme p \<noteq> ''''" "Host p \<noteq> ''''"
  shows "fetchVideoMetaData e w u =
    (case cached e w u of
       Some v \<Rightarrow> ((Some v, None), w\<lparr>trace := trace w @ [RedisGet (cacheKey_of u)]\<rparr>)
     | None \<Rightarrow> fetch_fresh e (w\<lparr>trace := trace w @ [RedisGet (cacheKey_of u)]\<rparr>) u)"
  using assms
  by (simp add: fetchVideoMetaData_def cached_def rdb_Get_def split: sum.splits)

lemma fetch_fresh_ok:
  assumes "Output e [''yt-dlp'', ''-j'', u] = (out, None)"
      and "Unmarshal_YTDLPOutput e out = Inr d"
  shows "fetch_fresh e w u =
    ((Some (build_response d), None),
     w\<lparr>rdb := redis_write (rdb w) (cacheKey_of u) (Marshal e (build_response d)) (5 * Minute),
       trace := trace w @ [Exec [''yt-dlp'', ''-j'', u],
                RedisSet (cacheKey_of u) (Marshal e (build_response d)) (5 * Minute)]\<rparr>)"
  using assms
  by (simp add: fetch_fresh_def exec_Output_def rdb_Set_def Let_def)

lemma fetch_fresh_exec_error:
  assumes "Output e [''yt-dlp'', ''-j'', u] = (out, Some x)"
  shows "fetch_fresh e w u =
    ((None, Some (from_exec x)), w\<lparr>trace := trace w @ [Exec [''yt-dlp'', ''-j'', u]]\<rparr>)"
  using assms by (simp add: fetch_fresh_def exec_Output_def)

lemma fetch_fresh_json_error:
  assumes "Output e [''yt-dlp'', ''-j'', u] = (out, None)"
      and "Unmarshal_YTDLPOutput e out = Inl x"
  shows "fetch_fresh e w u =
    ((None, Some (from_json x)), w\<lparr>trace := trace w @ [Exec [''yt-dlp'', ''-j'', u]]\<rparr>)"
  using assms by (simp add: fetch_fresh_def exec_Output_def)

lemma cached_empty_store: "store (rdb w) = Map.empty \<Longrightarrow> cached e w u = None"
  by (simp add: cached_def redis_lookup_def)

subsection \<open>The test doubles, evaluated\<close>

lemma build_demo: "build_response demo_ytdlp = demo_response"
  by (simp add: build_response_def demo_ytdlp_def demo_response_def media_of_def)

lemma demo_parse:
  "ParseRequestURI demo_env demo_url =
     Inr \<lparr>Scheme = ''https'', Host = ''example.com'', Path = ''/watch''\<rparr>"
  by (simp add: demo_env_def)

lemma demo_Output: "Output demo_env [''yt-dlp'', ''-j'', demo_url] = (demo_output, None)"
  by (simp add: demo_env_def)

lemma demo_Unmarshal: "Unmarshal_YTDLPOutput demo_env demo_output = Inr demo_ytdlp"
  by (simp add: Unmarshal_YTDLPOutput_def demo_env_def demo_output_def)

lemma demo_Marshal: "Marshal demo_env demo_response = demo_payload"
  by (simp add: demo_env_def)

section \<open>The format identifier check\<close>

text \<open>
  Claim C2. \<^verbatim>\<open>isValidFormatID\<close> returns true for every string that matches
  \<^verbatim>\<open>^[A-Za-z0-9+_-]+$\<close>; it returns false for every string that contains a character outside
  that set, and for the empty string.
\<close>

theorem isValidFormatID_matches_pattern:
  "(matches_format_pattern s \<longrightarrow> isValidFormatID s) \<and>
   ((\<exists>c\<in>set s. c \<notin> format_id_alphabet) \<longrightarrow> \<not> isValidFormatID s) \<and>
   \<not> isValidFormatID ''''"
  by (auto simp: isValidFormatID_eq matches_format_pattern_def)

theorem isValidFormatID_matches_pattern_witness:
  "matches_format_pattern ''137+140'' \<and> isValidFormatID ''137+140'' \<and>
   (\<exists>c\<in>set ''18; rm -rf /''. c \<notin> format_id_alphabet) \<and> \<not> isValidFormatID ''18; rm -rf /''"
proof -
  have a: "matches_format_pattern ''137+140''"
    by (simp add: matches_format_pattern_def format_id_alphabet_def)
  have b: "\<exists>c\<in>set ''18; rm -rf /''. c \<notin> format_id_alphabet"
    by (simp add: format_id_alphabet_def)
  from a b isValidFormatID_matches_pattern [of "''137+140''"]
    isValidFormatID_matches_pattern [of "''18; rm -rf /''"]
  show ?thesis by blast
qed

section \<open>Normalization of the format list\<close>

text \<open>
  Claim C3. For every raw format list, the normalized \<^verbatim>\<open>Medias\<close> are the converted entries of
  the list, in the order reported, without the entries whose \<^verbatim>\<open>format_id\<close> is empty and
  without the entries whose \<^verbatim>\<open>vcodec\<close> and \<^verbatim>\<open>acodec\<close> both equal \<^verbatim>\<open>"none"\<close>; every other entry
  is there.
\<close>

theorem normalization_filters_in_order:
  "Medias (build_response ytdlpData) =
     map media_of
       (filter (\<lambda>f. f_FormatID f \<noteq> '''' \<and> \<not> (f_Vcodec f = ''none'' \<and> f_Acodec f = ''none''))
          (yt_Formats ytdlpData))"
  by (simp add: build_response_def formats_loop_acc)

theorem normalization_filters_in_order_witness:
  "Medias (build_response demo_ytdlp) =
     [\<lparr>FormatID = ''18'', Quality = ''360p'', Width = 640, Height = 360, Ext = ''mp4''\<rparr>]"
  using normalization_filters_in_order [of demo_ytdlp]
  by (simp add: demo_ytdlp_def media_of_def)

section \<open>The cache\<close>

text \<open>
  Claim C4. When the page URL passes the URL check, the lookup under the key
  \<^verbatim>\<open>"video_meta:"\<close> followed by the page URL hits, and the payload deserializes into a
  \<^verbatim>\<open>VideoResponse\<close>, then \<^verbatim>\<open>fetchVideoMetaData\<close> returns that value without an error; the one call
  it made is the lookup, so the tool was not run and nothing was written, and the store
  with its expiries is as it was.
\<close>

theorem cache_hit_returns_cached:
  assumes "ParseRequestURI e videoURL = Inr parsedURL"
      and "Scheme parsedURL \<noteq> ''''" and "Host parsedURL \<noteq> ''''"
      and "redis_lookup (rdb w) (''video_meta:'' @ videoURL) = Inr cacheData"
      and "Unmarshal_VideoResponse e cacheData = Inr v"
  shows "fetchVideoMetaData e w videoURL =
           ((Some v, None), w\<lparr>trace := trace w @ [RedisGet (''video_meta:'' @ videoURL)]\<rparr>)"
  using assms by (simp add: fetch_valid_url cached_def cacheKey_of_def)

theorem cache_hit_returns_cached_witness:
  "fetchVideoMetaData demo_env warm_world demo_url =
     ((Some demo_response, None), warm_world\<lparr>trace := [RedisGet (''video_meta:'' @ demo_url)]\<rparr>)"
proof -
  have 2: "redis_lookup (rdb warm_world) (''video_meta:'' @ demo_url) = Inr demo_payload"
    by (simp add: redis_lookup_def warm_world_def cacheKey_of_def)
  have 3: "Unmarshal_VideoResponse demo_env demo_payload = Inr demo_response"
    by (simp add: Unmarshal_VideoResponse_def demo_env_def demo_payload_def)
  have 4: "trace warm_world = []" by (simp add: warm_world_def)
  from cache_hit_returns_cached [OF demo_parse _ _ 2 3] 4 show ?thesis by simp
qed

text \<open>
  Claim C8. When the page URL passes the URL check, there is no usable cache entry, the tool
  succeeds and its output parses, then \<^verbatim>\<open>fetchVideoMetaData\<close> returns the normalized value
  without an error, and after the lookup and the tool run it issues one write: the
  serialized value under the key \<^verbatim>\<open>"video_meta:"\<close> followed by the page URL, with an expiry of
  five minutes (300000000000 ns). A server that answers stores it; with a server that
  does not, the store is unchanged and the result is the same.
\<close>

theorem fresh_fetch_writes_cache:
  assumes "ParseRequestURI e videoURL = Inr parsedURL"
      and "Scheme parsedURL \<noteq> ''''" and "Host parsedURL \<noteq> ''''"
      and "cached e w videoURL = None"
      and "Output e [''yt-dlp'', ''-j'', videoURL] = (out, None)"
      and "Unmarshal_YTDLPOutput e out = Inr ytdlpData"
  shows "fetchVideoMetaData e w videoURL =
           ((Some (build_response ytdlpData), None),
            w\<lparr>rdb := (if up (rdb w)
                     then (rdb w)\<lparr>store := (store (rdb w))
                            (''video_meta:'' @ videoURL \<mapsto>
                               (Marshal e (build_response ytdlpData), 300000000000))\<rparr>
                     else rdb w),
              trace := trace w @
               [RedisGet (''video_meta:'' @ videoURL),
                Exec [''yt-dlp'', ''-j'', videoURL],
                RedisSet (''video_meta:'' @ videoURL) (Marshal e (build_response ytdlpData))
                  300000000000]\<rparr>)"
  using assms
  by (simp add: fetch_valid_url fetch_fresh_ok [OF assms(5,6)]
        redis_write_def cacheKey_of_def Minute_def)

theorem fresh_fetch_writes_cache_witness:
  "fetchVideoMetaData demo_env empty_world demo_url =
     ((Some demo_response, None),
      \<lparr>rdb = \<lparr>store = [''video_meta:'' @ demo_url \<mapsto> (demo_payload, 300000000000)], up = True\<rparr>,
       trace = [RedisGet (''video_meta:'' @ demo_url), Exec [''yt-dlp'', ''-j'', demo_url],
                RedisSet (''video_meta:'' @ demo_url) demo_payload 300000000000]\<rparr>) \<and>
   fetchVideoMetaData demo_env redis_down_world demo_url =
     ((Some demo_response, None),
      \<lparr>rdb = \<lparr>store = Map.empty, up = False\<rparr>,
       trace = [RedisGet (''video_meta:'' @ demo_url), Exec [''yt-dlp'', ''-j'', demo_url],
                RedisSet (''video_meta:'' @ demo_url) demo_payload 300000000000]\<rparr>)"
proof -
  have a: "cached demo_env empty_world demo_url = None"
    by (rule cached_empty_store) (simp add: empty_world_def)
  have b: "cached demo_env redis_down_world demo_url = None"
    by (rule cached_empty_store) (simp add: redis_down_world_def)
  show ?thesis
    using fresh_fetch_writes_cache [OF demo_parse _ _ a demo_Output demo_Unmarshal]
      fresh_fetch_writes_cache [OF demo_parse _ _ b demo_Output demo_Unmarshal]
    by (simp add: build_demo demo_Marshal empty_world_def redis_down_world_def)
qed

section \<open>The entries of a returned value\<close>




section \<open>Errors of the metadata fetch\<close>

text \<open>
  The URL check has two ways out, both before anything is looked up or run. When the parser
  fails, its error is returned. When the parser succeeds and the scheme or the host is
  empty, the returned error is \<^verbatim>\<open>nil\<close>, and \<^verbatim>\<open>/submit\<close> goes on to dereference the \<^verbatim>\<open>nil\<close>
  pointer it got.
\<close>

lemma fetch_parse_error:
  "ParseRequestURI e u = Inl err \<Longrightarrow> fetchVideoMetaData e w u = ((None, Some err), w)"
  by (simp add: fetchVideoMetaData_def)

lemma fetch_without_scheme_or_host:
  "ParseRequestURI e u = Inr p \<Longrightarrow> Scheme p = '''' \<or> Host p = '''' \<Longrightarrow>
   fetchVideoMetaData e w u = ((None, None), w)"
  by (auto simp: fetchVideoMetaData_def)

lemma submit_nil_pointer:
  assumes "ParseForm r = None" and "FormValue r ''videoURL'' = u" and "u \<noteq> ''''"
      and "ValidateURL e u" and "ParseRequestURI e u = Inr p"
      and "Scheme p = '''' \<or> Host p = ''''"
  shows "submit e w r = (Panic nil_pointer_dereference, w)"
  using assms(1-4) by (simp add: submit_def fetch_without_scheme_or_host [OF assms(5,6)])

text \<open>
  Claim C5, at the input \<^verbatim>\<open>/watch\<close>. The string is not an absolute URL: it parses, as an
  absolute path, into a URL without scheme and host. The check rejects it, but the value
  it returns for the error is the parser's \<^verbatim>\<open>nil\<close>: the caller gets no value and no error.
  Nothing was looked up or run.
\<close>

theorem path_only_url_returns_no_error:
  "ParseRequestURI demo_env ''/watch'' = Inr \<lparr>Scheme = '''', Host = '''', Path = ''/watch''\<rparr> \<and>
   fetchVideoMetaData demo_env empty_world ''/watch'' = ((None, None), empty_world)"
  by (simp add: fetchVideoMetaData_def demo_env_def demo_url_def)

text \<open>
  The tool exits with status 0 and prints nothing: the error that comes back is the JSON
  syntax error of the empty document, the kind of a malformed output, not of a failed
  extraction.
\<close>

theorem silent_tool_is_parse_error_counterexample:
  "Output silent_env [''yt-dlp'', ''-j'', demo_url] = ('''', None) \<and>
   cached silent_env empty_world demo_url = None \<and>
   fst (fetchVideoMetaData silent_env empty_world demo_url)
     = (None, Some (from_json json_SyntaxError)) \<and>
   kind_of (from_json json_SyntaxError) = Some MalformedMetadata \<and>
   kind_of (from_json json_SyntaxError) \<noteq> Some ExtractionFailed"
proof -
  have p: "ParseRequestURI silent_env demo_url =
      Inr \<lparr>Scheme = ''https'', Host = ''example.com'', Path = ''/watch''\<rparr>"
    by (simp add: silent_env_def demo_env_def)
  have c: "cached silent_env empty_world demo_url = None"
    by (rule cached_empty_store) (simp add: empty_world_def)
  have out: "Output silent_env [''yt-dlp'', ''-j'', demo_url] = ('''', None)"
    by (simp add: silent_env_def)
  have u: "Unmarshal_YTDLPOutput silent_env '''' = Inl json_SyntaxError"
    by (simp add: Unmarshal_YTDLPOutput_def)
  show ?thesis
    by (simp add: fetch_valid_url [OF p] c out fetch_fresh_json_error [OF out u])
qed

text \<open>
  Claim C6, amended. When the page URL passes the URL check and there is no usable cache
  entry: if running the tool gives an error (it could not be started, or it exited
  non-zero), \<^verbatim>\<open>fetchVideoMetaData\<close> fails with that error, a failed extraction; if the tool
  exits with status 0 and prints nothing, \<^verbatim>\<open>fetchVideoMetaData\<close> fails with the JSON syntax
  error of the empty document, the same kind of error as for an output that does not parse.
\<close>

theorem extraction_errors_by_cause:
  assumes "ParseRequestURI e videoURL = Inr parsedURL"
      and "Scheme parsedURL \<noteq> ''''" and "Host parsedURL \<noteq> ''''"
      and "cached e w videoURL = None"
      and "Output e [''yt-dlp'', ''-j'', videoURL] = (out, err)"
  shows "(\<forall>x. err = Some x \<longrightarrow>
            fst (fetchVideoMetaData e w videoURL) = (None, Some (from_exec x)) \<and>
            kind_of (from_exec x) = Some ExtractionFailed) \<and>
         (err = None \<and> out = '''' \<longrightarrow>
            fst (fetchVideoMetaData e w videoURL) = (None, Some (from_json json_SyntaxError)) \<and>
            kind_of (from_json json_SyntaxError) = Some MalformedMetadata)"
proof -
  have u: "Unmarshal_YTDLPOutput e '''' = Inl json_SyntaxError"
    by (simp add: Unmarshal_YTDLPOutput_def)
  show ?thesis
    using assms(5)
    by (auto simp: fetch_valid_url [OF assms(1-3)] assms(4) fetch_fresh_exec_error
        fetch_fresh_json_error [OF _ u])
qed

theorem extraction_errors_by_cause_witness:
  "Output failing_env [''yt-dlp'', ''-j'', demo_url] = ('''', Some exec_ExitError) \<and>
   fst (fetchVideoMetaData failing_env empty_world demo_url)
     = (None, Some (from_exec exec_ExitError)) \<and>
   Output silent_env [''yt-dlp'', ''-j'', demo_url] = ('''', None) \<and>
   fst (fetchVideoMetaData silent_env empty_world demo_url)
     = (None, Some (from_json json_SyntaxError))"
proof -
  have p1: "ParseRequestURI failing_env demo_url =
      Inr \<lparr>Scheme = ''https'', Host = ''example.com'', Path = ''/watch''\<rparr>"
    by (simp add: failing_env_def demo_env_def)
  have p2: "ParseRequestURI silent_env demo_url =
      Inr \<lparr>Scheme = ''https'', Host = ''example.com'', Path = ''/watch''\<rparr>"
    by (simp add: silent_env_def demo_env_def)
  have c1: "cached failing_env empty_world demo_url = None"
    by (rule cached_empty_store) (simp add: empty_world_def)
  have c2: "cached silent_env empty_world demo_url = None"
    by (rule cached_empty_store) (simp add: empty_world_def)
  have o1: "Output failing_env [''yt-dlp'', ''-j'', demo_url] = ('''', Some exec_ExitError)"
    by (simp add: failing_env_def)
  have o2: "Output silent_env [''yt-dlp'', ''-j'', demo_url] = ('''', None)"
    by (simp add: silent_env_def)
  from o1 o2 extraction_errors_by_cause [OF p1 _ _ c1 o1]
    extraction_errors_by_cause [OF p2 _ _ c2 o2]
  show ?thesis by simp
qed

section \<open>The handlers\<close>

text \<open>
  The check of the page URL comes first: a request without a page URL and with the format
  \<^verbatim>\<open>18; evil\<close> is answered with the missing-URL error, not with the invalid-format error.
\<close>

theorem invalid_format_without_url_counterexample:
  "\<not> isValidFormatID (Query evil_request_without_url ''format'') \<and>
   fst (download demo_env empty_world evil_request_without_url) =
     [http_Error ''Missing video page URL'' StatusBadRequest] \<and>
   fst (download demo_env empty_world evil_request_without_url) \<noteq>
     [http_Error ''Invalid format'' StatusBadRequest]"
  by (simp add: download_def evil_request_without_url_def isValidFormatID_eq
      format_id_alphabet_def)

text \<open>
  Claim C1, amended. For every format identifier that \<^verbatim>\<open>isValidFormatID\<close> rejects, the
  \<^verbatim>\<open>/download\<close> handler answers with one error reply and leaves the world as it was, so the
  tool is not run: the reply is \<^verbatim>\<open>Invalid format\<close> when the page URL is non-empty, and
  \<^verbatim>\<open>Missing video page URL\<close>, from the check before it, when the page URL is empty.
\<close>

theorem invalid_format_never_runs_tool:
  assumes "\<not> isValidFormatID (Query r ''format'')"
  shows "download e w r =
    ([http_Error
        (if Query r ''url'' = '''' then ''Missing video page URL'' else ''Invalid format'')
        StatusBadRequest], w)"
  using assms by (simp add: download_def)

theorem invalid_format_never_runs_tool_witness:
  "\<not> isValidFormatID (Query evil_request ''format'') \<and>
   download demo_env empty_world evil_request =
     ([http_Error ''Invalid format'' StatusBadRequest], empty_world)"
proof -
  have a: "\<not> isValidFormatID (Query evil_request ''format'')"
    by (simp add: evil_request_def isValidFormatID_eq format_id_alphabet_def)
  have b: "Query evil_request ''url'' \<noteq> ''''"
    by (simp add: evil_request_def demo_url_def)
  from a b invalid_format_never_runs_tool [OF a, of demo_env empty_world]
  show ?thesis by simp
qed

text \<open>
  A request with the page URL and the format \<^verbatim>\<open>18\<close>: the tool is run with the format as the
  argument of \<^verbatim>\<open>-f\<close>, and its three chunks are written in order after the two headers.
\<close>

lemma download_streams_chunks:
  \<open>download demo_env empty_world good_request =
     ([Header_Set ''Content-Disposition'' ''attachment; filename="video.mp4"'',
       Header_Set ''Content-Type'' ''video/mp4'',
       Write ''chunk 1'', Write ''chunk 2'', Write ''chunk 3''],
      empty_world\<lparr>trace :=
        [Exec [''yt-dlp'', ''-f'', ''18'', ''--merge-output-format'', ''mp4'', ''--prefer-ffmpeg'',
               ''--no-mtime'', ''-o'', ''-'', demo_url]]\<rparr>)\<close>
proof -
  have v: "isValidFormatID ''18''"
    by (simp add: isValidFormatID_eq format_id_alphabet_def)
  show ?thesis
    by (simp add: download_def good_request_def v exec_Run_def demo_env_def empty_world_def
        demo_url_def)
qed

lemma all_dropped:
  assumes "\<forall>f\<in>set fs. f_FormatID f = '''' \<or> (f_Vcodec f = ''none'' \<and> f_Acodec f = ''none'')"
  shows "formats_loop medias fs = medias"
  using assms by (induction fs arbitrary: medias) auto

text \<open>
  Claim C10. When every entry that the tool reports is dropped by the filter (or it reports
  none), \<^verbatim>\<open>fetchVideoMetaData\<close> returns a value without an error and with no \<^verbatim>\<open>Medias\<close>, and the
  \<^verbatim>\<open>/submit\<close> handler, which reads \<^verbatim>\<open>Medias[0]\<close> without a check, panics with an index out of
  range.
\<close>

theorem submit_indexes_empty_medias:
  assumes "ParseForm r = None"
      and "FormValue r ''videoURL'' = videoURL" and "videoURL \<noteq> ''''"
      and "ValidateURL e videoURL"
      and "ParseRequestURI e videoURL = Inr parsedURL"
      and "Scheme parsedURL \<noteq> ''''" and "Host parsedURL \<noteq> ''''"
      and "cached e w videoURL = None"
      and "Output e [''yt-dlp'', ''-j'', videoURL] = (out, None)"
      and "Unmarshal_YTDLPOutput e out = Inr ytdlpData"
      and "\<forall>f\<in>set (yt_Formats ytdlpData).
             f_FormatID f = '''' \<or> (f_Vcodec f = ''none'' \<and> f_Acodec f = ''none'')"
  shows "fst (fetchVideoMetaData e w videoURL) = (Some (build_response ytdlpData), None) \<and>
         Medias (build_response ytdlpData) = [] \<and>
         fst (submit e w r) = Panic (index_out_of_range 0 0)"
proof -
  have m: "Medias (build_response ytdlpData) = []"
    using all_dropped [OF assms(11), of "[]"] by (simp add: build_response_def)
  obtain w' where f:
    "fetchVideoMetaData e w videoURL = ((Some (build_response ytdlpData), None), w')"
    by (simp add: fetch_valid_url [OF assms(5-7)] assms(8) fetch_fresh_ok [OF assms(9,10)])
  have s: "fst (submit e w r) = Panic (index_out_of_range 0 0)"
    using assms(1-4) m by (simp add: submit_def f)
  from f m s show ?thesis by simp
qed

theorem submit_indexes_empty_medias_witness:
  "fst (fetchVideoMetaData storyboard_env empty_world demo_url)
     = (Some (build_response storyboard_ytdlp), None) \<and>
   Medias (build_response storyboard_ytdlp) = [] \<and>
   fst (submit storyboard_env empty_world submit_request) = Panic (index_out_of_range 0 0)"
proof -
  have p: "ParseRequestURI storyboard_env demo_url =
      Inr \<lparr>Scheme = ''https'', Host = ''example.com'', Path = ''/watch''\<rparr>"
    by (simp add: storyboard_env_def demo_env_def)
  have c: "cached storyboard_env empty_world demo_url = None"
    by (rule cached_empty_store) (simp add: empty_world_def)
  have out: "Output storyboard_env [''yt-dlp'', ''-j'', demo_url] = (storyboard_output, None)"
    by (simp add: storyboard_env_def)
  have u: "Unmarshal_YTDLPOutput storyboard_env storyboard_output = Inr storyboard_ytdlp"
    by (simp add: Unmarshal_YTDLPOutput_def storyboard_env_def demo_env_def
        storyboard_output_def demo_output_def)
  have d: "\<forall>f\<in>set (yt_Formats storyboard_ytdlp).
             f_FormatID f = '''' \<or> (f_Vcodec f = ''none'' \<and> f_Acodec f = ''none'')"
    by (simp add: storyboard_ytdlp_def)
  have r1: "ParseForm submit_request = None" by (simp add: submit_request_def)
  have r2: "FormValue submit_request ''videoURL'' = demo_url" by (simp add: submit_request_def)
  have r3: "demo_url \<noteq> ''''" by (simp add: demo_url_def)
  have r4: "ValidateURL storyboard_env demo_url" by (simp add: storyboard_env_def demo_env_def)
  from submit_indexes_empty_medias [OF r1 r2 r3 r4 p _ _ c out u d] show ?thesis by simp
qed

end
